theory Spec2Isabelle
  imports Complex_Main
begin

section \<open>Python values used by the scraper\<close>

text \<open>
  Python strings are modelled as \<open>string\<close> (lists of characters, read as code points below
  256). A value that is either a string or \<open>None\<close> (the result of \<open>get_attribute\<close>, of
  \<open>Tag.get\<close>, or a variable initialised with \<open>None\<close>) is a \<open>string option\<close>.
\<close>

definition isspace :: "char \<Rightarrow> bool" where
  "isspace c = (c \<in> set [CHR 0x09, CHR 0x0A, CHR 0x0B, CHR 0x0C, CHR 0x0D,
                            CHR 0x1C, CHR 0x1D, CHR 0x1E, CHR 0x1F, CHR 0x20, CHR 0x85, CHR 0xA0])"

text \<open>\<open>str.strip()\<close>: whitespace is removed at both ends.\<close>

definition strip :: "string \<Rightarrow> string" where
  "strip s = rev (dropWhile isspace (rev (dropWhile isspace s)))"

text \<open>\<open>str.endswith(suffix)\<close> and \<open>str.startswith(prefix)\<close>.\<close>

definition endswith :: "string \<Rightarrow> string \<Rightarrow> bool" where
  "endswith s suf = (length suf \<le> length s \<and> drop (length s - length suf) s = suf)"


text \<open>
  \<open>str.capitalize()\<close> on ASCII text: the first character in upper case, the others in
  lower case. The configured media names are ASCII.
\<close>

definition ascii_lowercase :: string where
  "ascii_lowercase = ''abcdefghijklmnopqrstuvwxyz''"

definition ascii_uppercase :: string where
  "ascii_uppercase = ''ABCDEFGHIJKLMNOPQRSTUVWXYZ''"

definition upper_char :: "char \<Rightarrow> char" where
  "upper_char c = (case map_of (zip ascii_lowercase ascii_uppercase) c of Some u \<Rightarrow> u | None \<Rightarrow> c)"

definition lower_char :: "char \<Rightarrow> char" where
  "lower_char c = (case map_of (zip ascii_uppercase ascii_lowercase) c of Some l \<Rightarrow> l | None \<Rightarrow> c)"

fun capitalize :: "string \<Rightarrow> string" where
  "capitalize [] = []"
| "capitalize (c # cs) = upper_char c # map lower_char cs"

text \<open>Truthiness of a string-or-\<open>None\<close> value, and Python's \<open>a or b\<close> on such values.\<close>

fun truthy :: "string option \<Rightarrow> bool" where
  "truthy None = False"
| "truthy (Some s) = (s \<noteq> [])"

definition py_or :: "string option \<Rightarrow> string option \<Rightarrow> string option" where
  "py_or a b = (if truthy a then a else b)"

text \<open>\<open>a or "literal"\<close>, whose value is always a string.\<close>

fun or_default :: "string option \<Rightarrow> string \<Rightarrow> string" where
  "or_default None d = d"
| "or_default (Some s) d = (if s \<noteq> [] then s else d)"

text \<open>
  Exceptions are values. \<open>str_of e\<close> is Python's \<open>str(e)\<close>. \<open>RequestException\<close> stands for
  \<open>requests.exceptions.RequestException\<close> and its subclasses, \<open>WebDriverException\<close> for the
  Selenium errors other than the two the code names, \<open>OtherException\<close> for every other
  subclass of \<open>Exception\<close>.
\<close>

datatype exn =
    RequestException string
  | NoSuchElementException string
  | TimeoutException string
  | WebDriverException string
  | OtherException string

fun str_of :: "exn \<Rightarrow> string" where
  "str_of (RequestException m) = m"
| "str_of (NoSuchElementException m) = m"
| "str_of (TimeoutException m) = m"
| "str_of (WebDriverException m) = m"
| "str_of (OtherException m) = m"

fun is_request_exception :: "exn \<Rightarrow> bool" where
  "is_request_exception (RequestException m) = True"
| "is_request_exception e = False"

fun is_no_such_element :: "exn \<Rightarrow> bool" where
  "is_no_such_element (NoSuchElementException m) = True"
| "is_no_such_element e = False"


section \<open>Scrolling until the page height is stable\<close>

text \<open>
  \<open>scroll_and_collect(driver)\<close> of \<open>main.py\<close>. The browser is seen through the answers of
  \<open>document.body.scrollHeight\<close>: \<open>last_height\<close> is the answer before the loop and
  \<open>heights k\<close> the answer read after scroll number \<open>k + 1\<close>. The Python function returns
  nothing; the model returns the final \<open>scroll_count\<close>, the number of scrolls executed.
\<close>

definition max_scrolls :: nat where
  "max_scrolls = 20"

function scroll_loop :: "(nat \<Rightarrow> int) \<Rightarrow> int \<Rightarrow> nat \<Rightarrow> nat" where
  "scroll_loop heights last_height scroll_count =
     (if scroll_count < max_scrolls then
        (let new_height = heights scroll_count;
             scroll_count' = scroll_count + 1
         in if new_height = last_height then scroll_count'
            else scroll_loop heights new_height scroll_count')
      else scroll_count)"
  by pat_completeness auto
termination
  by (relation "measure (\<lambda>(heights, last_height, scroll_count). max_scrolls - scroll_count)") auto

definition scroll_and_collect :: "int \<Rightarrow> (nat \<Rightarrow> int) \<Rightarrow> nat" where
  "scroll_and_collect initial_height heights = scroll_loop heights initial_height 0"

text \<open>
  The height seen before scroll number \<open>k + 1\<close>: the initial height for the first scroll, the
  height read after the previous scroll otherwise.
\<close>

definition height_before :: "int \<Rightarrow> (nat \<Rightarrow> int) \<Rightarrow> nat \<Rightarrow> int" where
  "height_before initial_height heights k = (if k = 0 then initial_height else heights (k - 1))"

section \<open>Documents and browser sessions\<close>

text \<open>
  A parsed static document (BeautifulSoup) is seen through \<open>soup.select_one(selector)\<close>,
  which returns a tag or \<open>None\<close>. A tag has its text nodes and its attributes.
\<close>

record tag =
  tag_strings :: "string list"
  tag_attrs :: "string \<Rightarrow> string option"

type_synonym soup = "string \<Rightarrow> tag option"

text \<open>
  \<open>tag.get_text(strip=True)\<close>: every text node is stripped, the empty ones are dropped, the
  others are joined with the empty separator.
\<close>

definition get_text_strip :: "tag \<Rightarrow> string" where
  "get_text_strip t = concat (filter (\<lambda>s. s \<noteq> []) (map strip (tag_strings t)))"

text \<open>
  A Selenium element has its visible text and its attributes; a browser session that has
  loaded a page answers \<open>find_element\<close> (an element, or an exception such as
  \<open>NoSuchElementException\<close>) and \<open>find_elements\<close> by CSS selector.
\<close>

record web_element =
  el_text :: string
  get_attribute :: "string \<Rightarrow> string option"

record browser =
  find_element :: "string \<Rightarrow> exn + web_element"
  find_elements :: "string \<Rightarrow> exn + web_element list"

text \<open>
  The outside world of the news scraper. \<open>static_fetch w url\<close> is the static path up to
  the parsed document (\<open>requests.get\<close>, \<open>raise_for_status\<close>, the parse and the debug dump
  of the HTML): \<open>Inl e\<close> when one of them raises \<open>e\<close>. \<open>open_page w url\<close> is the start of
  the rendered path (\<open>create_chrome_driver\<close>, \<open>driver.get(url)\<close>, the screenshot): \<open>Inl e\<close>
  when one of them raises \<open>e\<close>. Logging and \<open>driver.quit()\<close> are taken to succeed: the
  Chrome driver's \<open>quit\<close> swallows its own errors.
\<close>

record world =
  static_fetch :: "string \<Rightarrow> exn + soup"
  open_page :: "string \<Rightarrow> exn + browser"

text \<open>The effects the properties observe: which fetch engine was run, on which URL.\<close>

datatype effect =
    StaticRequest string
  | SeleniumSession string

section \<open>News\<close>

text \<open>A configured source: the dictionary with the keys \<open>name\<close> and \<open>url\<close>.\<close>

record source =
  source_name :: string
  source_url :: string

record news_record =
  Media :: string
  Headline :: string
  Image :: string
  URL :: string

definition NEWS_SOURCES :: "source list" where
  "NEWS_SOURCES =
     [\<lparr>source_name = ''kompas'', source_url = ''https://www.kompas.com/''\<rparr>,
      \<lparr>source_name = ''detik'', source_url = ''https://www.detik.com/''\<rparr>,
      \<lparr>source_name = ''tribun'', source_url = ''https://www.tribunnews.com/''\<rparr>]"

definition HEADLINE_SELECTORS :: "string \<Rightarrow> string list option" where
  "HEADLINE_SELECTORS = map_of
     [(''kompas'', [''.read__title'', ''.headline__title'', ''.most__title'', ''.trending__title'']),
      (''detik'', [''.detail__title'', ''.media__title'', ''.title'', ''h1.title'', ''h2.title'']),
      (''tribun'', [''.hltitle'', ''.headline-caption'', ''.newslist-title'', ''h1.f50''])]"

definition IMAGE_SELECTORS :: "string \<Rightarrow> string list option" where
  "IMAGE_SELECTORS = map_of
     [(''kompas'', [''.photo__wrap img'', ''.headline__thumb img'', ''img.lozad'']),
      (''detik'', [''.detail__img-wrap img'', ''.headline__img img'', ''picture img'']),
      (''tribun'', [''.imgpreview img'', ''.headline-img img'', ''.news-image img''])]"

text \<open>The record of the two \<open>except Exception\<close> handlers and of the loop's handler.\<close>

definition error_record :: "string \<Rightarrow> exn \<Rightarrow> string \<Rightarrow> string \<Rightarrow> news_record" where
  "error_record media_name e image_text url =
     \<lparr>Media = capitalize media_name, Headline = ''Error: '' @ str_of e, Image = image_text, URL = url\<rparr>"

subsection \<open>The rendered path: \<open>get_news_with_selenium\<close>\<close>

text \<open>
  The two selector loops of the rendered path. The third argument is the current value of
  the loop's variable (\<open>None\<close> at the start); a \<open>NoSuchElementException\<close> moves on to the
  next selector, any other exception leaves the function's \<open>try\<close> block.
\<close>

fun selenium_headline_loop :: "browser \<Rightarrow> string list \<Rightarrow> string option \<Rightarrow> exn + string option" where
  "selenium_headline_loop driver [] headline_text = Inr headline_text"
| "selenium_headline_loop driver (selector # rest) headline_text =
     (case find_element driver selector of
        Inl e \<Rightarrow>
          if is_no_such_element e then selenium_headline_loop driver rest headline_text
          else Inl e
      | Inr element \<Rightarrow>
          (let headline_text' = Some (strip (el_text element))
           in if truthy headline_text' then Inr headline_text'
              else selenium_headline_loop driver rest headline_text'))"

fun selenium_image_loop :: "browser \<Rightarrow> string list \<Rightarrow> string option \<Rightarrow> exn + string option" where
  "selenium_image_loop driver [] image_url = Inr image_url"
| "selenium_image_loop driver (selector # rest) image_url =
     (case find_element driver selector of
        Inl e \<Rightarrow>
          if is_no_such_element e then selenium_image_loop driver rest image_url
          else Inl e
      | Inr element \<Rightarrow>
          (let image_url' = py_or (get_attribute element ''src'') (get_attribute element ''data-src'')
           in if truthy image_url' then Inr image_url'
              else selenium_image_loop driver rest image_url'))"

text \<open>The two fallbacks, each in its own \<open>try\<close> whose handler stores the sentinel.\<close>

definition headline_fallback :: "browser \<Rightarrow> string option \<Rightarrow> string option" where
  "headline_fallback driver headline_text =
     (if \<not> truthy headline_text then
        (case find_elements driver ''h1, h2, .title'' of
           Inl e \<Rightarrow> Some ''Headline tidak ditemukan''
         | Inr elements \<Rightarrow>
             (case elements of
                [] \<Rightarrow> headline_text
              | element # _ \<Rightarrow> Some (strip (el_text element))))
      else headline_text)"

fun image_fallback_loop :: "web_element list \<Rightarrow> string option \<Rightarrow> string option" where
  "image_fallback_loop [] image_url = image_url"
| "image_fallback_loop (element # rest) image_url =
     (case get_attribute element ''src'' of
        None \<Rightarrow> image_fallback_loop rest image_url
      | Some src \<Rightarrow>
          if src \<noteq> [] \<and> (endswith src ''.jpg'' \<or> endswith src ''.png'' \<or> endswith src ''.jpeg'')
          then Some src
          else image_fallback_loop rest image_url)"

definition image_fallback :: "browser \<Rightarrow> string option \<Rightarrow> string option" where
  "image_fallback driver image_url =
     (if \<not> truthy image_url then
        (case find_elements driver ''img'' of
           Inl e \<Rightarrow> Some ''Image tidak ditemukan''
         | Inr elements \<Rightarrow> image_fallback_loop elements image_url)
      else image_url)"

text \<open>
  The body of the function's \<open>try\<close> block: the page is loaded, the two loops and the two
  fallbacks run, and the values of \<open>headline_text\<close> and \<open>image_url\<close> reach the
  \<open>return\<close>; or an exception leaves the block.
\<close>

definition selenium_try_body :: "world \<Rightarrow> string \<Rightarrow> string \<Rightarrow> exn + (string option \<times> string option)" where
  "selenium_try_body w media_name url =
     (case open_page w url of
        Inl e \<Rightarrow> Inl e
      | Inr driver \<Rightarrow>
          (let headline_selectors =
                 (case HEADLINE_SELECTORS media_name of
                    Some selectors \<Rightarrow> selectors
                  | None \<Rightarrow> [''h1'', ''h2.title'', ''.headline'', ''.title'']);
               image_selectors =
                 (case IMAGE_SELECTORS media_name of
                    Some selectors \<Rightarrow> selectors
                  | None \<Rightarrow> [''img''])
           in case selenium_headline_loop driver headline_selectors None of
                Inl e \<Rightarrow> Inl e
              | Inr headline_text \<Rightarrow>
                  (case selenium_image_loop driver image_selectors None of
                     Inl e \<Rightarrow> Inl e
                   | Inr image_url \<Rightarrow>
                       Inr (headline_fallback driver headline_text,
                            image_fallback driver image_url))))"

text \<open>
  \<open>get_news_with_selenium\<close>: the \<open>return\<close> of the \<open>try\<close> block, or the record of the
  \<open>except Exception\<close> handler. Every call opens one browser session.
\<close>

definition get_news_with_selenium :: "world \<Rightarrow> string \<Rightarrow> string \<Rightarrow> news_record \<times> effect list" where
  "get_news_with_selenium w media_name url =
     ((case selenium_try_body w media_name url of
         Inr (headline_text, image_url) \<Rightarrow>
           \<lparr>Media = capitalize media_name,
            Headline = or_default headline_text ''Headline tidak ditemukan'',
            Image = or_default image_url ''Image tidak ditemukan'',
            URL = url\<rparr>
       | Inl e \<Rightarrow> error_record media_name e ''Error'' url),
      [SeleniumSession url])"

subsection \<open>The static path: \<open>get_news\<close>\<close>

text \<open>
  The headline loop of the static path stores the text of the first selector that selects
  a tag and leaves the loop; the image loop leaves only with a non-empty value.
\<close>

fun static_headline_loop :: "soup \<Rightarrow> string list \<Rightarrow> string option \<Rightarrow> string option" where
  "static_headline_loop soup [] headline_text = headline_text"
| "static_headline_loop soup (selector # rest) headline_text =
     (case soup selector of
        Some headline_elem \<Rightarrow> Some (get_text_strip headline_elem)
      | None \<Rightarrow> static_headline_loop soup rest headline_text)"

fun static_image_loop :: "soup \<Rightarrow> string list \<Rightarrow> string option \<Rightarrow> string option" where
  "static_image_loop soup [] image_url = image_url"
| "static_image_loop soup (selector # rest) image_url =
     (case soup selector of
        Some img_elem \<Rightarrow>
          (let image_url' = py_or (tag_attrs img_elem ''src'') (tag_attrs img_elem ''data-src'')
           in if truthy image_url' then image_url'
              else static_image_loop soup rest image_url')
      | None \<Rightarrow> static_image_loop soup rest image_url)"

definition static_headline :: "soup \<Rightarrow> string \<Rightarrow> string option" where
  "static_headline soup media_name =
     (case HEADLINE_SELECTORS media_name of
        Some selectors \<Rightarrow> static_headline_loop soup selectors None
      | None \<Rightarrow> None)"

definition static_image :: "soup \<Rightarrow> string \<Rightarrow> string option" where
  "static_image soup media_name =
     (case IMAGE_SELECTORS media_name of
        Some selectors \<Rightarrow> static_image_loop soup selectors None
      | None \<Rightarrow> None)"

text \<open>
  \<open>get_news\<close>: a \<open>RequestException\<close> of the static fetch and an incomplete static result
  both go to the rendered path; any other exception ends in the handler's record.
\<close>

definition get_news :: "world \<Rightarrow> string \<Rightarrow> string \<Rightarrow> news_record \<times> effect list" where
  "get_news w media_name url =
     (case static_fetch w url of
        Inl e \<Rightarrow>
          if is_request_exception e then
            (let (result, fx) = get_news_with_selenium w media_name url
             in (result, StaticRequest url # fx))
          else (error_record media_name e ''N/A'' url, [StaticRequest url])
      | Inr soup \<Rightarrow>
          (let headline_text = static_headline soup media_name;
               image_url = static_image soup media_name
           in if \<not> truthy headline_text \<or> \<not> truthy image_url then
                (let (result, fx) = get_news_with_selenium w media_name url
                 in (result, StaticRequest url # fx))
              else (\<lparr>Media = capitalize media_name,
                     Headline = or_default headline_text ''Headline tidak ditemukan'',
                     Image = or_default image_url ''Image tidak ditemukan'',
                     URL = url\<rparr>,
                    [StaticRequest url])))"

subsection \<open>The acquisition loop\<close>

text \<open>
  The loop of \<open>main\<close> (and of the two endpoints of \<open>app.py\<close>) over the sources: one row per
  source, the acquirer's record or, when the acquirer raises, the handler's record. In
  this model \<open>get_news\<close> handles every exception itself, so \<open>scrape_news\<close> passes it as an
  acquirer that always returns.
\<close>

fun news_loop ::
  "(string \<Rightarrow> string \<Rightarrow> (exn + news_record) \<times> effect list) \<Rightarrow> source list \<Rightarrow> news_record list \<times> effect list" where
  "news_loop acquire [] = ([], [])"
| "news_loop acquire (source # rest) =
     (let (result, fx) = acquire (source_name source) (source_url source);
          row = (case result of
                   Inr r \<Rightarrow> r
                 | Inl e \<Rightarrow> error_record (source_name source) e ''Error'' (source_url source));
          (news_data, fxs) = news_loop acquire rest
      in (row # news_data, fx @ fxs))"

definition scrape_news :: "world \<Rightarrow> source list \<Rightarrow> news_record list \<times> effect list" where
  "scrape_news w sources =
     news_loop (\<lambda>media_name url. let (result, fx) = get_news w media_name url in (Inr result, fx)) sources"

section \<open>The news endpoint and its cache\<close>







section \<open>The catalog\<close>

text \<open>
  A book record is the dictionary with the keys \<open>Judul\<close>, \<open>Penerbit\<close>, \<open>Harga\<close> and
  \<open>Image URL\<close>. Each value is what the Python variable holds: a string or \<open>None\<close>.
\<close>

record book_record =
  Judul :: "string option"
  Penerbit :: "string option"
  Harga :: "string option"
  Image_URL :: "string option"

text \<open>
  An item container is seen through \<open>book.find_element(By.CSS_SELECTOR, sel)\<close>: the
  element, or the exception that the lookup raises.
\<close>

type_synonym book_element = "string \<Rightarrow> exn + web_element"

datatype element_type = Img | Title | Publisher | Price

text \<open>The dictionary \<open>selectors\<close> of \<open>process_book_elements\<close>.\<close>

fun book_selectors :: "element_type \<Rightarrow> string list" where
  "book_selectors Img =
     [''img.object-contain'', ''img.product-image'', ''img[data-testid='productImage']'']"
| "book_selectors Title =
     [''h2.text-neutral-700'', ''h2.product-title'', ''div.product-name'',
      ''[data-testid='productTitle']'']"
| "book_selectors Publisher =
     [''div.text-neutral-500'', ''div.publisher'', ''div.product-publisher'',
      ''[data-testid='productPublisher']'']"
| "book_selectors Price =
     [''div.text-s-extrabold'', ''div.product-price'', ''div.price'',
      ''[data-testid='productPrice']'']"

text \<open>The assignment that the branch of an element type makes from the element found.\<close>

fun extract_field :: "element_type \<Rightarrow> web_element \<Rightarrow> string option" where
  "extract_field Img element = get_attribute element ''src''"
| "extract_field Title element = py_or (get_attribute element ''title'') (Some (el_text element))"
| "extract_field Publisher element = py_or (get_attribute element ''title'') (Some (el_text element))"
| "extract_field Price element = Some (strip (el_text element))"

text \<open>
  The inner loop over the selectors of one element type. The last argument is the current
  value of the variable of that type, \<open>N/A\<close> at the start; the assignment comes before the
  test \<open>if locals()[element_type]\<close>, so a value that fails the test stays in the variable.
\<close>

fun field_loop :: "element_type \<Rightarrow> book_element \<Rightarrow> string list \<Rightarrow> string option \<Rightarrow> exn + string option" where
  "field_loop kind book [] current = Inr current"
| "field_loop kind book (sel # rest) current =
     (case book sel of
        Inl e \<Rightarrow>
          if is_no_such_element e then field_loop kind book rest current
          else Inl e
      | Inr element \<Rightarrow>
          (let assigned = extract_field kind element
           in if truthy assigned then Inr assigned
              else field_loop kind book rest assigned))"

text \<open>
  The body of the \<open>try\<close> for one book: the element types in the order of the dictionary,
  then the record. An exception other than \<open>NoSuchElementException\<close> leaves the body.
\<close>

definition process_book :: "book_element \<Rightarrow> exn + book_record" where
  "process_book book =
     (case field_loop Img book (book_selectors Img) (Some ''N/A'') of
        Inl e \<Rightarrow> Inl e
      | Inr img \<Rightarrow>
     (case field_loop Title book (book_selectors Title) (Some ''N/A'') of
        Inl e \<Rightarrow> Inl e
      | Inr title \<Rightarrow>
     (case field_loop Publisher book (book_selectors Publisher) (Some ''N/A'') of
        Inl e \<Rightarrow> Inl e
      | Inr publisher \<Rightarrow>
     (case field_loop Price book (book_selectors Price) (Some ''N/A'') of
        Inl e \<Rightarrow> Inl e
      | Inr price \<Rightarrow>
          Inr \<lparr>Judul = title, Penerbit = publisher, Harga = price, Image_URL = img\<rparr>))))"

text \<open>\<open>process_book_elements\<close>: a book whose body raises is logged and skipped.\<close>

fun process_book_elements :: "book_element list \<Rightarrow> book_record list" where
  "process_book_elements [] = []"
| "process_book_elements (book # books) =
     (case process_book book of
        Inl e \<Rightarrow> process_book_elements books
      | Inr book_data \<Rightarrow> book_data # process_book_elements books)"

text \<open>
  The catalog page in the browser: the outcome of the wait for the main content (\<open>None\<close>
  when the element is there, the exception otherwise), the heights that the scroll loop
  reads, \<open>driver.find_elements\<close> for the item containers, and \<open>driver.page_source\<close>.
\<close>

record catalog_page =
  wait_main_content :: "exn option"
  initial_height :: int
  scroll_heights :: "nat \<Rightarrow> int"
  find_books :: "string \<Rightarrow> exn + book_element list"
  page_source :: string





section \<open>The trending scraper\<close>















section \<open>Example pages\<close>

text \<open>
  A Kompas front page whose static HTML has a headline under the second headline selector
  and an image under the second image selector.
\<close>

definition kompas_soup :: soup where
  "kompas_soup = map_of
     [(''.headline__title'', \<lparr>tag_strings = ['' Berita utama ''], tag_attrs = Map.empty\<rparr>),
      (''.headline__thumb img'',
         \<lparr>tag_strings = [], tag_attrs = [''src'' \<mapsto> ''https://img.example/a.jpg'']\<rparr>)]"

text \<open>
  A Kompas page whose first headline selector selects a tag without text, while the second
  one selects the headline; and the same page as the browser renders it.
\<close>

definition blank_first_soup :: soup where
  "blank_first_soup = map_of
     [(''.read__title'', \<lparr>tag_strings = [''  ''], tag_attrs = Map.empty\<rparr>),
      (''.headline__title'', \<lparr>tag_strings = [''Berita utama''], tag_attrs = Map.empty\<rparr>),
      (''.photo__wrap img'', \<lparr>tag_strings = [], tag_attrs = [''alt'' \<mapsto> ''foto'']\<rparr>),
      (''.headline__thumb img'',
         \<lparr>tag_strings = [], tag_attrs = [''src'' \<mapsto> ''https://img.example/a.jpg'']\<rparr>)]"

definition blank_first_browser :: browser where
  "blank_first_browser =
     \<lparr>find_element = (\<lambda>selector.
        if selector = ''.read__title'' then Inr \<lparr>el_text = ''  '', get_attribute = Map.empty\<rparr>
        else if selector = ''.headline__title''
          then Inr \<lparr>el_text = ''Berita utama'', get_attribute = Map.empty\<rparr>
        else Inl (NoSuchElementException selector)),
      find_elements = (\<lambda>selector. Inr [])\<rparr>"

text \<open>A rendered page on which no selector finds anything.\<close>

definition empty_browser :: browser where
  "empty_browser =
     \<lparr>find_element = (\<lambda>selector. Inl (NoSuchElementException selector)),
      find_elements = (\<lambda>selector. Inr [])\<rparr>"

text \<open>
  A world in which Kompas answers the static fetch with \<open>kompas_soup\<close>; Detik fails the
  static fetch with a transport error and the browser cannot load it either; Tribun fails
  the static fetch with a transport error and renders to a page without content; and the
  static fetch of any other URL raises an exception that is not a transport error.
\<close>

definition demo_world :: world where
  "demo_world =
     \<lparr>static_fetch = (\<lambda>url.
        if url = ''https://www.kompas.com/'' then Inr kompas_soup
        else if url = ''https://www.detik.com/'' then Inl (RequestException ''timed out'')
        else if url = ''https://www.tribunnews.com/'' then Inl (RequestException ''HTTP 503'')
        else Inl (OtherException ''disk full'')),
      open_page = (\<lambda>url.
        if url = ''https://www.detik.com/'' then Inl (WebDriverException ''net::ERR_TIMED_OUT'')
        else Inr empty_browser)\<rparr>"

text \<open>A world whose disk is full: the debug dump of every static fetch raises \<open>OSError\<close>.\<close>

definition full_disk_world :: world where
  "full_disk_world =
     \<lparr>static_fetch = (\<lambda>url. Inl (OtherException ''[Errno 28] No space left on device'')),
      open_page = (\<lambda>url. Inr empty_browser)\<rparr>"


text \<open>
  An item container whose image element has no \<open>src\<close> attribute and whose price element
  has blank text; the title and the publisher are there.
\<close>

definition sparse_book :: book_element where
  "sparse_book = (\<lambda>sel.
     if sel = ''img.object-contain'' then Inr \<lparr>el_text = [], get_attribute = Map.empty\<rparr>
     else if sel = ''h2.text-neutral-700''
       then Inr \<lparr>el_text = ''Clean Code'', get_attribute = Map.empty\<rparr>
     else if sel = ''div.text-neutral-500''
       then Inr \<lparr>el_text = ''Pearson'', get_attribute = Map.empty\<rparr>
     else if sel = ''div.text-s-extrabold''
       then Inr \<lparr>el_text = ''  '', get_attribute = Map.empty\<rparr>
     else Inl (NoSuchElementException sel))"







section \<open>Observations used to state the properties\<close>

text \<open>Whether a browser session was opened among the effects of a call.\<close>

definition selenium_invoked :: "effect list \<Rightarrow> bool" where
  "selenium_invoked fx = list_ex (\<lambda>e. case e of SeleniumSession u \<Rightarrow> True | StaticRequest u \<Rightarrow> False) fx"

text \<open>
  The static path resolves both required fields: the fetch returns a document in which
  the headline and the image both resolve to non-empty values.
\<close>

definition static_complete :: "world \<Rightarrow> string \<Rightarrow> string \<Rightarrow> bool" where
  "static_complete w media_name url =
     (case static_fetch w url of
        Inl e \<Rightarrow> False
      | Inr soup \<Rightarrow> truthy (static_headline soup media_name) \<and> truthy (static_image soup media_name))"

text \<open>The static fetch raises a transport error (a \<open>RequestException\<close>).\<close>

definition static_transport_error :: "world \<Rightarrow> string \<Rightarrow> bool" where
  "static_transport_error w url =
     (case static_fetch w url of Inl e \<Rightarrow> is_request_exception e | Inr soup \<Rightarrow> False)"

text \<open>The static fetch raises an exception that is not a transport error.\<close>

definition static_other_error :: "world \<Rightarrow> string \<Rightarrow> bool" where
  "static_other_error w url =
     (case static_fetch w url of Inl e \<Rightarrow> \<not> is_request_exception e | Inr soup \<Rightarrow> False)"

text \<open>The static fetch returns a document in which the headline or the image is missing.\<close>

definition static_incomplete :: "world \<Rightarrow> string \<Rightarrow> string \<Rightarrow> bool" where
  "static_incomplete w media_name url =
     (case static_fetch w url of
        Inl e \<Rightarrow> False
      | Inr soup \<Rightarrow> \<not> truthy (static_headline soup media_name) \<or> \<not> truthy (static_image soup media_name))"

text \<open>
  What one selector contributes in the image loop of the static path and in the headline
  loop of the rendered path, when it selects something.
\<close>

definition static_image_value :: "soup \<Rightarrow> string \<Rightarrow> string option" where
  "static_image_value soup selector =
     (case soup selector of
        None \<Rightarrow> None
      | Some img_elem \<Rightarrow> py_or (tag_attrs img_elem ''src'') (tag_attrs img_elem ''data-src''))"

definition selenium_headline_value :: "browser \<Rightarrow> string \<Rightarrow> string option" where
  "selenium_headline_value driver selector =
     (case find_element driver selector of
        Inl e \<Rightarrow> None
      | Inr element \<Rightarrow> Some (strip (el_text element)))"

text \<open>No lookup of the selectors raises anything but \<open>NoSuchElementException\<close>.\<close>

definition lookups_quiet :: "browser \<Rightarrow> string list \<Rightarrow> bool" where
  "lookups_quiet driver selectors =
     list_all (\<lambda>selector. case find_element driver selector of
                             Inl e \<Rightarrow> is_no_such_element e
                           | Inr element \<Rightarrow> True) selectors"

section \<open>Properties of the scroll loop\<close>

text \<open>The loop's equation unfolds for ever under the simplifier; it is used by hand.\<close>

declare scroll_loop.simps [simp del]

lemma scroll_loop_inv:
  "c \<le> max_scrolls \<Longrightarrow> lh = height_before h0 hs c \<Longrightarrow>
     c \<le> scroll_loop hs lh c \<and> scroll_loop hs lh c \<le> max_scrolls \<and>
     (c < max_scrolls \<longrightarrow> c < scroll_loop hs lh c) \<and>
     (\<forall>k. c \<le> k \<and> k + 1 < scroll_loop hs lh c \<longrightarrow> hs k \<noteq> height_before h0 hs k) \<and>
     (scroll_loop hs lh c < max_scrolls \<longrightarrow>
        hs (scroll_loop hs lh c - 1) = height_before h0 hs (scroll_loop hs lh c - 1))"
proof (induction hs lh c rule: scroll_loop.induct)
  case (1 heights last_height scroll_count)
  show ?case
  proof (cases "scroll_count < max_scrolls")
    case False
    have stop: "scroll_loop heights last_height scroll_count = scroll_count"
      using False by (simp add: scroll_loop.simps [of heights last_height scroll_count])
    show ?thesis
      unfolding stop using False "1.prems" by simp
  next
    case True
    show ?thesis
    proof (cases "heights scroll_count = last_height")
      case stable: True
      have stop: "scroll_loop heights last_height scroll_count = scroll_count + 1"
        using True stable by (simp add: scroll_loop.simps [of heights last_height scroll_count])
      show ?thesis
        unfolding stop using True stable "1.prems" by simp
    next
      case moving: False
      have step: "scroll_loop heights last_height scroll_count =
                  scroll_loop heights (heights scroll_count) (scroll_count + 1)"
        using True moving by (simp add: scroll_loop.simps [of heights last_height scroll_count])
      have hb: "heights scroll_count = height_before h0 heights (scroll_count + 1)"
        by (simp add: height_before_def)
      have le: "scroll_count + 1 \<le> max_scrolls" using True by simp
      note IH = "1.IH" [OF True refl refl moving le hb]
      have here: "heights scroll_count \<noteq> height_before h0 heights scroll_count"
        using moving "1.prems" by simp
      let ?n = "scroll_loop heights (heights scroll_count) (scroll_count + 1)"
      have moving_all: "heights k \<noteq> height_before h0 heights k"
        if "scroll_count \<le> k" and "k + 1 < ?n" for k
      proof (cases "k = scroll_count")
        case True
        then show ?thesis using here by simp
      next
        case False
        then have "scroll_count + 1 \<le> k" using that by simp
        then show ?thesis using IH that by blast
      qed
      show ?thesis
        unfolding step using IH moving_all by simp
    qed
  qed
qed

text \<open>
  Claim C5. Whatever heights the page reports, the loop runs at least one and at most 20
  scrolls; it stops at the first scroll after which the height equals the height before
  that scroll (scroll \<open>k + 1\<close>, when no earlier scroll was stable); and when no scroll
  among the first 20 is stable it stops after exactly 20. The function is total, so the
  loop always terminates.
\<close>

theorem scroll_until_stable:
  "1 \<le> scroll_and_collect h0 hs \<and> scroll_and_collect h0 hs \<le> 20 \<and>
   (\<forall>k < 20. hs k = height_before h0 hs k \<and> (\<forall>j < k. hs j \<noteq> height_before h0 hs j)
       \<longrightarrow> scroll_and_collect h0 hs = k + 1) \<and>
   ((\<forall>k < 20. hs k \<noteq> height_before h0 hs k) \<longrightarrow> scroll_and_collect h0 hs = 20)"
proof -
  let ?n = "scroll_and_collect h0 hs"
  have inv: "0 \<le> ?n \<and> ?n \<le> max_scrolls \<and> (0 < max_scrolls \<longrightarrow> 0 < ?n) \<and>
     (\<forall>k. 0 \<le> k \<and> k + 1 < ?n \<longrightarrow> hs k \<noteq> height_before h0 hs k) \<and>
     (?n < max_scrolls \<longrightarrow> hs (?n - 1) = height_before h0 hs (?n - 1))"
    unfolding scroll_and_collect_def
    by (rule scroll_loop_inv) (simp_all add: height_before_def)
  have pos: "1 \<le> ?n" and cap: "?n \<le> 20" using inv by (simp_all add: max_scrolls_def)
  have moving: "\<And>k. k + 1 < ?n \<Longrightarrow> hs k \<noteq> height_before h0 hs k" using inv by simp
  have early: "?n < 20 \<Longrightarrow> hs (?n - 1) = height_before h0 hs (?n - 1)"
    using inv by (simp add: max_scrolls_def)
  have first: "?n = k + 1"
    if k: "k < 20" and st: "hs k = height_before h0 hs k"
      and fst: "\<forall>j < k. hs j \<noteq> height_before h0 hs j" for k
  proof (rule antisym)
    show "?n \<le> k + 1"
    proof (rule ccontr)
      assume "\<not> ?n \<le> k + 1"
      then have "k + 1 < ?n" by simp
      from moving [OF this] st show False by simp
    qed
    show "k + 1 \<le> ?n"
    proof (rule ccontr)
      assume "\<not> k + 1 \<le> ?n"
      then have lt: "?n - 1 < k" and "?n < 20" using pos k by simp_all
      from early [OF \<open>?n < 20\<close>] fst lt show False by blast
    qed
  qed
  have never: "?n = 20" if nv: "\<forall>k < 20. hs k \<noteq> height_before h0 hs k"
  proof (rule ccontr)
    assume "?n \<noteq> 20"
    then have lt: "?n < 20" using cap by simp
    have "?n - 1 < 20" using lt by simp
    with nv early [OF lt] show False by blast
  qed
  show ?thesis using pos cap first never by blast
qed

text \<open>
  A page that reports 200, 300 and then 300 for ever after an initial 100 stops the loop
  at the third scroll; a page that grows by one at every scroll stops it at the cap.
\<close>

theorem scroll_until_stable_witness:
  "scroll_and_collect 100 (\<lambda>k. if k < 2 then 200 + 100 * int k else 300) = 3 \<and>
   scroll_and_collect 0 (\<lambda>k. 1 + int k) = 20"
proof -
  let ?hs = "\<lambda>k::nat. if k < 2 then 200 + 100 * int k else (300::int)"
  let ?gs = "\<lambda>k::nat. 1 + int k"
  have stable: "?hs 2 = height_before 100 ?hs 2 \<and> (\<forall>j < 2. ?hs j \<noteq> height_before 100 ?hs j)"
    by (auto simp: height_before_def less_Suc_eq numeral_2_eq_2)
  have first: "\<forall>k < 20. ?hs k = height_before 100 ?hs k \<and> (\<forall>j < k. ?hs j \<noteq> height_before 100 ?hs j)
       \<longrightarrow> scroll_and_collect 100 ?hs = k + 1"
    by (rule conjunct1 [OF conjunct2 [OF conjunct2 [OF scroll_until_stable [of 100 ?hs]]]])
  have three: "scroll_and_collect 100 ?hs = 2 + 1"
    by (rule first [rule_format, of 2]) (use stable in simp_all)
  have grows: "\<forall>k < 20. ?gs k \<noteq> height_before 0 ?gs k"
    by (auto simp: height_before_def)
  have never: "(\<forall>k < 20. ?gs k \<noteq> height_before 0 ?gs k) \<longrightarrow> scroll_and_collect 0 ?gs = 20"
    by (rule conjunct2 [OF conjunct2 [OF conjunct2 [OF scroll_until_stable [of 0 ?gs]]]])
  have twenty: "scroll_and_collect 0 ?gs = 20"
    using never grows by (rule mp)
  show ?thesis using three twenty by simp
qed

section \<open>Properties of the news acquisition\<close>

lemma capitalize_eq_Nil [simp]: "capitalize s = [] \<longleftrightarrow> s = []"
  by (cases s) simp_all



lemma get_news_with_selenium_effects:
  "snd (get_news_with_selenium w n u) = [SeleniumSession u]"
  by (simp add: get_news_with_selenium_def)




text \<open>The equations that evaluate the scraper on the example pages.\<close>

lemmas news_eval =
  scrape_news_def NEWS_SOURCES_def get_news_def demo_world_def kompas_soup_def
  static_headline_def static_image_def HEADLINE_SELECTORS_def IMAGE_SELECTORS_def
  get_text_strip_def strip_def isspace_def py_or_def upper_char_def lower_char_def ascii_lowercase_def ascii_uppercase_def
  get_news_with_selenium_def selenium_try_body_def error_record_def empty_browser_def
  headline_fallback_def image_fallback_def


subsection \<open>Escalation to the rendered path\<close>

lemma selenium_invoked_simps [simp]:
  "selenium_invoked [] = False"
  "selenium_invoked (StaticRequest u # fx) = selenium_invoked fx"
  "selenium_invoked (SeleniumSession u # fx) = True"
  by (simp_all add: selenium_invoked_def)

lemma get_news_transport_error:
  "static_transport_error w u \<Longrightarrow>
     get_news w n u = (fst (get_news_with_selenium w n u), [StaticRequest u, SeleniumSession u])"
proof -
  assume "static_transport_error w u"
  then obtain e where "static_fetch w u = Inl e" and "is_request_exception e"
    by (cases "static_fetch w u") (simp_all add: static_transport_error_def)
  then show ?thesis
    using get_news_with_selenium_effects [of w n u]
    by (simp add: get_news_def case_prod_beta prod_eq_iff)
qed

lemma get_news_incomplete:
  "static_incomplete w n u \<Longrightarrow>
     get_news w n u = (fst (get_news_with_selenium w n u), [StaticRequest u, SeleniumSession u])"
proof -
  assume "static_incomplete w n u"
  then obtain soup where "static_fetch w u = Inr soup"
    and "\<not> truthy (static_headline soup n) \<or> \<not> truthy (static_image soup n)"
    by (cases "static_fetch w u") (simp_all add: static_incomplete_def)
  then show ?thesis
    using get_news_with_selenium_effects [of w n u]
    by (auto simp: get_news_def Let_def case_prod_beta prod_eq_iff)
qed

lemma get_news_complete:
  "static_complete w n u \<Longrightarrow> snd (get_news w n u) = [StaticRequest u]"
  by (auto simp: static_complete_def get_news_def Let_def split: sum.splits)

lemma get_news_other_error:
  "static_fetch w u = Inl e \<Longrightarrow> \<not> is_request_exception e \<Longrightarrow>
     get_news w n u = (error_record n e ''N/A'' u, [StaticRequest u])"
  by (simp add: get_news_def)

lemma static_outcomes:
  "(static_transport_error w u \<or> static_incomplete w n u) \<longleftrightarrow>
     \<not> static_complete w n u \<and> \<not> static_other_error w u"
  by (auto simp: static_transport_error_def static_incomplete_def static_complete_def
        static_other_error_def split: sum.splits)

text \<open>
  Claim C2, as amended. For every source, \<open>get_news\<close> opens a browser session if and only
  if the static fetch raises a transport error or returns a document in which the
  headline or the image does not resolve to a non-empty value. When the static path
  resolves both fields the only effect is the static request. A transport error goes
  straight to the rendered path, whose record is the result. When the static path raises
  any other exception, no browser session is opened and the result is the handler's
  record, with the headline \<open>Error: \<close> followed by the message and the image \<open>N/A\<close>.
\<close>

theorem rendered_path_on_demand:
  "(selenium_invoked (snd (get_news w n u)) \<longleftrightarrow>
      static_transport_error w u \<or> static_incomplete w n u) \<and>
   (static_complete w n u \<longrightarrow> snd (get_news w n u) = [StaticRequest u]) \<and>
   (static_transport_error w u \<longrightarrow>
      get_news w n u = (fst (get_news_with_selenium w n u), [StaticRequest u, SeleniumSession u])) \<and>
   (static_other_error w u \<longrightarrow>
      snd (get_news w n u) = [StaticRequest u] \<and>
      Headline (fst (get_news w n u)) = ''Error: '' @ (case static_fetch w u of Inl e \<Rightarrow> str_of e | Inr soup \<Rightarrow> []) \<and>
      Image (fst (get_news w n u)) = ''N/A'')"
proof -
  have other: "snd (get_news w n u) = [StaticRequest u] \<and>
      Headline (fst (get_news w n u)) = ''Error: '' @ (case static_fetch w u of Inl e \<Rightarrow> str_of e | Inr soup \<Rightarrow> []) \<and>
      Image (fst (get_news w n u)) = ''N/A''" if "static_other_error w u"
    using that
    by (auto simp: static_other_error_def get_news_other_error error_record_def split: sum.splits)
  have iff: "selenium_invoked (snd (get_news w n u)) \<longleftrightarrow>
      static_transport_error w u \<or> static_incomplete w n u"
  proof (cases "static_transport_error w u \<or> static_incomplete w n u")
    case True
    then have "get_news w n u = (fst (get_news_with_selenium w n u), [StaticRequest u, SeleniumSession u])"
      using get_news_transport_error get_news_incomplete by blast
    with True show ?thesis by simp
  next
    case False
    then have "static_complete w n u \<or> static_other_error w u"
      using static_outcomes [of w u n] by blast
    then have "snd (get_news w n u) = [StaticRequest u]"
      using get_news_complete other by blast
    with False show ?thesis by simp
  qed
  show ?thesis
    using iff other get_news_complete get_news_transport_error by blast
qed

text \<open>More equations for the evaluation on the example pages.\<close>

lemmas news_eval2 = news_eval full_disk_world_def static_complete_def static_transport_error_def
  static_incomplete_def static_other_error_def blank_first_soup_def blank_first_browser_def

text \<open>
  In the example world Kompas is complete on the static path, and Detik raises a transport
  error there.
\<close>

theorem rendered_path_on_demand_witness:
  "static_complete demo_world ''kompas'' ''https://www.kompas.com/'' \<and>
   snd (get_news demo_world ''kompas'' ''https://www.kompas.com/'') =
     [StaticRequest ''https://www.kompas.com/''] \<and>
   static_transport_error demo_world ''https://www.detik.com/'' \<and>
   selenium_invoked (snd (get_news demo_world ''detik'' ''https://www.detik.com/''))"
proof -
  have complete: "static_complete demo_world ''kompas'' ''https://www.kompas.com/''"
    by (simp add: news_eval2)
  have transport: "static_transport_error demo_world ''https://www.detik.com/''"
    by (simp add: news_eval2)
  note k = rendered_path_on_demand [of demo_world "''kompas''" "''https://www.kompas.com/''"]
  note d = rendered_path_on_demand [of demo_world "''detik''" "''https://www.detik.com/''"]
  from k complete have "snd (get_news demo_world ''kompas'' ''https://www.kompas.com/'') =
     [StaticRequest ''https://www.kompas.com/'']" by blast
  moreover from d transport
  have "selenium_invoked (snd (get_news demo_world ''detik'' ''https://www.detik.com/''))" by blast
  ultimately show ?thesis using complete transport by blast
qed

text \<open>
  The claim as it was stated fails when the static path raises an exception that is not a
  transport error: on a full disk the static path resolves neither field for Kompas, and
  no browser session is opened.
\<close>

theorem rendered_path_not_invoked_counterexample:
  "\<not> static_complete full_disk_world ''kompas'' ''https://www.kompas.com/'' \<and>
   \<not> selenium_invoked (snd (get_news full_disk_world ''kompas'' ''https://www.kompas.com/'')) \<and>
   get_news full_disk_world ''kompas'' ''https://www.kompas.com/'' =
     (\<lparr>Media = ''Kompas'', Headline = ''Error: [Errno 28] No space left on device'',
        Image = ''N/A'', URL = ''https://www.kompas.com/''\<rparr>,
      [StaticRequest ''https://www.kompas.com/''])"
  by (simp add: news_eval2)

subsection \<open>Failure of both paths\<close>











subsection \<open>The selector cascades\<close>

text \<open>
  The image loop of the static path and the headline loop of the rendered path return the
  value of the first selector whose value is non-empty, and pass over earlier selectors
  that select an element with an empty value.
\<close>

lemma static_image_loop_first_nonempty:
  "\<forall>s \<in> set pre. \<not> truthy (static_image_value soup s) \<Longrightarrow>
   truthy (static_image_value soup selector) \<Longrightarrow>
     static_image_loop soup (pre @ selector # post) cur = static_image_value soup selector"
  by (induction pre arbitrary: cur)
     (auto simp: static_image_value_def Let_def split: option.splits)

lemma selenium_headline_loop_first_nonempty:
  "lookups_quiet d pre \<Longrightarrow>
   \<forall>s \<in> set pre. \<not> truthy (selenium_headline_value d s) \<Longrightarrow>
   truthy (selenium_headline_value d selector) \<Longrightarrow>
     selenium_headline_loop d (pre @ selector # post) cur = Inr (selenium_headline_value d selector)"
  by (induction pre arbitrary: cur)
     (auto simp: selenium_headline_value_def lookups_quiet_def Let_def split: sum.splits)

text \<open>
  Claim C3 fails on the headline loop of the static path, which leaves at the first
  selector that selects a tag, whatever its text. On the example page the first selector
  selects a tag with blank text and the second one the headline: the loop returns the
  empty string, although the second selector alone yields the headline. On the same page
  the image loop passes over the first image, which has no source, and the headline loop
  of the rendered path passes over the blank element.
\<close>

theorem static_headline_stops_at_blank_match:
  "static_headline blank_first_soup ''kompas'' = Some [] \<and>
   static_headline_loop blank_first_soup [''.headline__title''] None = Some ''Berita utama'' \<and>
   static_image blank_first_soup ''kompas'' = Some ''https://img.example/a.jpg'' \<and>
   selenium_headline_loop blank_first_browser
     [''.read__title'', ''.headline__title'', ''.most__title'', ''.trending__title''] None =
     Inr (Some ''Berita utama'')"
  by (simp add: news_eval2)

section \<open>Properties of the news cache\<close>











section \<open>Properties of the catalog\<close>




text \<open>
  A field whose selectors find no element keeps the value it started with, \<open>N/A\<close> in
  \<open>process_book\<close>.
\<close>

lemma field_loop_not_found:
  "\<forall>sel \<in> set selectors. \<exists>e. book sel = Inl e \<and> is_no_such_element e \<Longrightarrow>
     field_loop kind book selectors current = Inr current"
  by (induction selectors) auto

text \<open>
  Claim C8 fails on a container in which a selector finds an element that yields no value:
  the assignment has already replaced \<open>N/A\<close> when the test fails. For the example
  container the emitted record has \<open>None\<close> as its image URL (the image element has no
  \<open>src\<close>) and the empty string as its price (the price element has blank text).
\<close>

theorem unresolved_book_fields_not_sentinel:
  "process_book_elements [sparse_book] =
     [\<lparr>Judul = Some ''Clean Code'', Penerbit = Some ''Pearson'', Harga = Some [],
       Image_URL = None\<rparr>]"
  by (simp add: process_book_def sparse_book_def py_or_def strip_def isspace_def)

section \<open>Properties of the trending scraper\<close>










end
